theory Spec2Isabelle
  imports Complex_Main "HOL-Library.AList"
begin

section \<open>Strings\<close>

text \<open>
  Identifiers are hexadecimal text, so a string is a list of ASCII characters.
  \<open>toLowerCase\<close> maps the letters A to Z to a to z and leaves every other
  character alone.
\<close>

definition toLowerCase_char :: "char \<Rightarrow> char" where
  "toLowerCase_char c =
     (let n = (of_char c :: nat) in if 65 \<le> n \<and> n \<le> 90 then char_of (n + 32) else c)"

definition toLowerCase :: "string \<Rightarrow> string" where
  "toLowerCase s = map toLowerCase_char s"

text \<open>
  \<open>String.prototype.padStart\<close>: a string that already has the target length
  (or more) is returned as it is; otherwise the filler is put in front.
\<close>

definition padStart :: "string \<Rightarrow> nat \<Rightarrow> char \<Rightarrow> string" where
  "padStart s targetLength c =
     (if targetLength \<le> length s then s else replicate (targetLength - length s) c @ s)"

text \<open>\<open>padHex\<close>: \<^verbatim>\<open>hex.padStart(targetLength, '0').toLowerCase()\<close>.\<close>

definition padHex :: "string \<Rightarrow> nat \<Rightarrow> string" where
  "padHex hex targetLength = toLowerCase (padStart hex targetLength (CHR ''0''))"


section \<open>Values of the host language\<close>

text \<open>
  A number is a rational (every finite double is one) or one of the three
  special values. Arithmetic is exact: rounding to the nearest double is not part
  of the embedding.
\<close>

datatype number = Finite rat | NaN | PosInfinity | NegInfinity

text \<open>
  Tag and log-field values are typed \<open>any\<close> in the source. The values an event
  can carry are the JSON-like ones, and big integers (attribute values may be
  \<open>bigint\<close>).
\<close>

datatype jsval =
    JUndefined
  | JNull
  | JBool bool
  | JNum number
  | JBigInt int
  | JStr string
  | JArr "jsval list"
  | JObj "(string \<times> jsval) list"

text \<open>
  Three renderings belong to the platform and not to this repository; they are
  parameters of the embedding: the text of a finite number that is not a whole
  number below \<open>10^21\<close> in magnitude (shortest round-trip digits, exponent
  notation), the text that \<open>JSON.stringify\<close> gives for a value other than
  \<open>undefined\<close>, and the text that \<open>toISOString\<close> gives for a valid time value.
\<close>

record runtime =
  numberText :: "rat \<Rightarrow> string"
  jsonText :: "jsval \<Rightarrow> string"
  isoText :: "int \<Rightarrow> string"

datatype error = RangeError string | TypeError string | FetchError string

datatype Date = Date int | InvalidDate

fun getTime :: "Date \<Rightarrow> number" where
  "getTime (Date ms) = Finite (of_int ms)"
| "getTime InvalidDate = NaN"

text \<open>The product of a number and a finite factor that is not zero.\<close>

fun number_times :: "number \<Rightarrow> rat \<Rightarrow> number" where
  "number_times (Finite r) k = Finite (r * k)"
| "number_times n k = n"

text \<open>The expression \<^verbatim>\<open>timestamp.getTime() * 1000000\<close> of the handlers.\<close>

definition nanos :: "Date \<Rightarrow> number" where
  "nanos d = number_times (getTime d) 1000000"

fun toISOString :: "runtime \<Rightarrow> Date \<Rightarrow> error + string" where
  "toISOString rt (Date ms) = Inr (isoText rt ms)"
| "toISOString rt InvalidDate = Inl (RangeError ''Invalid time value'')"

fun Number_isInteger :: "number \<Rightarrow> bool" where
  "Number_isInteger (Finite r) = (of_int \<lfloor>r\<rfloor> = r)"
| "Number_isInteger _ = False"

definition digit :: "nat \<Rightarrow> char" where
  "digit d = char_of (48 + d)"

fun nat_digits :: "nat \<Rightarrow> string" where
  "nat_digits n = (if n < 10 then [digit n] else nat_digits (n div 10) @ [digit (n mod 10)])"

declare nat_digits.simps [simp del]

definition int_digits :: "int \<Rightarrow> string" where
  "int_digits i = (if i < 0 then CHR ''-'' # nat_digits (nat (- i)) else nat_digits (nat i))"

text \<open>
  \<open>Number.prototype.toString\<close> in radix ten: a whole number below \<open>10^21\<close> in
  magnitude is written with all its decimal digits.
\<close>

fun Number_toString :: "runtime \<Rightarrow> number \<Rightarrow> string" where
  "Number_toString rt NaN = ''NaN''"
| "Number_toString rt PosInfinity = ''Infinity''"
| "Number_toString rt NegInfinity = ''-Infinity''"
| "Number_toString rt (Finite r) =
     (if of_int \<lfloor>r\<rfloor> = r \<and> \<bar>r\<bar> < 10 ^ 21 then int_digits \<lfloor>r\<rfloor> else numberText rt r)"

fun join :: "string \<Rightarrow> string list \<Rightarrow> string" where
  "join sep [] = []"
| "join sep [x] = x"
| "join sep (x # y # ys) = x @ sep @ join sep (y # ys)"

text \<open>
  \<open>String(value)\<close>. An array is its elements joined with a comma, where
  \<open>undefined\<close> and \<open>null\<close> elements give the empty text; a plain object is
  \<open>[object Object]\<close>.
\<close>

fun js_String :: "runtime \<Rightarrow> jsval \<Rightarrow> string" where
  "js_String rt JUndefined = ''undefined''"
| "js_String rt JNull = ''null''"
| "js_String rt (JBool b) = (if b then ''true'' else ''false'')"
| "js_String rt (JNum n) = Number_toString rt n"
| "js_String rt (JBigInt i) = int_digits i"
| "js_String rt (JStr s) = s"
| "js_String rt (JArr vs) =
     join '','' (map (\<lambda>v. if v = JUndefined \<or> v = JNull then [] else js_String rt v) vs)"
| "js_String rt (JObj kvs) = ''[object Object]''"

text \<open>\<open>Array.prototype.join\<close> with a separator.\<close>

definition Array_join :: "runtime \<Rightarrow> string \<Rightarrow> jsval list \<Rightarrow> string" where
  "Array_join rt sep vs =
     join sep (map (\<lambda>v. if v = JUndefined \<or> v = JNull then [] else js_String rt v) vs)"

text \<open>
  \<open>JSON.stringify\<close> gives \<open>undefined\<close> for \<open>undefined\<close>, throws a
  \<open>TypeError\<close> on a value that holds a big integer, and gives a text otherwise.
\<close>

fun holdsBigInt :: "jsval \<Rightarrow> bool" where
  "holdsBigInt (JBigInt i) = True"
| "holdsBigInt (JArr vs) = list_ex holdsBigInt vs"
| "holdsBigInt (JObj kvs) = list_ex (\<lambda>kv. holdsBigInt (snd kv)) kvs"
| "holdsBigInt v = False"

definition JSON_stringify :: "runtime \<Rightarrow> jsval \<Rightarrow> error + jsval" where
  "JSON_stringify rt v =
     (if v = JUndefined then Inr JUndefined
      else if holdsBigInt v then Inl (TypeError ''Do not know how to serialize a BigInt'')
      else Inr (JStr (jsonText rt v)))"

text \<open>Truthiness, as \<open>if (x)\<close>, \<open>x || y\<close> and \<open>!x\<close> test it.\<close>

fun truthy :: "jsval \<Rightarrow> bool" where
  "truthy JUndefined = False"
| "truthy JNull = False"
| "truthy (JBool b) = b"
| "truthy (JNum n) = (n \<noteq> NaN \<and> n \<noteq> Finite 0)"
| "truthy (JBigInt i) = (i \<noteq> 0)"
| "truthy (JStr s) = (s \<noteq> [])"
| "truthy (JArr vs) = True"
| "truthy (JObj kvs) = True"

text \<open>An optional string is truthy when it is there and not empty.\<close>

fun truthy_string :: "string option \<Rightarrow> bool" where
  "truthy_string None = False"
| "truthy_string (Some s) = (s \<noteq> [])"

text \<open>\<open>x || d\<close> and \<open>x || undefined\<close> for an optional string \<open>x\<close>.\<close>

definition or_default :: "string option \<Rightarrow> string \<Rightarrow> string" where
  "or_default x d = (case x of None \<Rightarrow> d | Some s \<Rightarrow> if s \<noteq> [] then s else d)"

definition or_undefined :: "string option \<Rightarrow> string option" where
  "or_undefined x = (if truthy_string x then x else None)"


section \<open>Spans and events\<close>

datatype SpanStatusCode = UNSET | OK | ERROR

datatype SpanKind = INTERNAL | SERVER | CLIENT | PRODUCER | CONSUMER

record SpanStatus =
  code :: SpanStatusCode
  message :: "string option"

record LogEntry =
  timestamp :: number
  log_fields :: "(string \<times> jsval) list"

text \<open>
  \<open>tags\<close> and \<open>fields\<close> are objects used as dictionaries: association lists in
  insertion order, where assigning to a key that is there keeps its place. (An
  object lists keys that are array indices first; tag names are not treated that
  way here.)
\<close>

record OtelSpan =
  traceId :: string
  spanId :: string
  parentSpanId :: "string option"
  operationName :: string
  startTime :: number
  endTime :: "number option"
  tags :: "(string \<times> jsval) list"
  logs :: "LogEntry list"
  status :: "SpanStatus option"

text \<open>
  The events of the tail stream, as far as the converter reads them. An attribute
  list that is absent or not an array is \<open>None\<close>.
\<close>

type_synonym Attribute = "string \<times> jsval"

record SpanContext =
  ctx_traceId :: string
  ctx_spanId :: "string option"

datatype ScriptVersion = ScriptVersion (version_id: "string option")

datatype OnsetInfo =
    FetchEventInfo (fetch_method: string) (fetch_url: string) (cfJson: jsval)
  | ScheduledEventInfo (scheduledTime: Date) (cron: string)
  | QueueEventInfo (queueName: string) (batchSize: number)
  | EmailEventInfo (mailFrom: string)
  | JsRpcEventInfo (methodName: string)
  | AlarmEventInfo
  | CustomEventInfo
  | TraceEventInfo
  | HibernatableWebSocketEventInfo (innerType: string)
  | OtherEventInfo

record Onset =
  onset_spanId :: string
  onset_attributes :: "Attribute list option"
  dispatchNamespace :: "string option"
  entrypoint :: "string option"
  executionModel :: string
  scriptName :: "string option"
  scriptTags :: "string list option"
  scriptVersion :: "ScriptVersion option"
  info :: OnsetInfo

datatype SpanOpenInfo =
    SpanFetchInfo string string
  | SpanAttributes "Attribute list option"
  | SpanOtherInfo

datatype ReturnInfo = FetchResponseInfo number | OtherResponseInfo

text \<open>
  The payloads, in the order of their fields: spanOpen has \<open>name\<close>, \<open>spanId\<close>
  and \<open>info\<close>; spanClose has \<open>outcome\<close>; attributes has \<open>info\<close>; log has
  \<open>level\<close> and \<open>message\<close>; exception has \<open>name\<close>, \<open>message\<close> and
  \<open>stack\<close>; return has \<open>info\<close>; outcome has \<open>outcome\<close>, \<open>cpuTime\<close> and
  \<open>wallTime\<close>; diagnosticChannel has \<open>channel\<close> and \<open>message\<close>. An event of
  any other type is \<open>OtherEvent\<close>.
\<close>

datatype Event =
    OnsetEvent Onset
  | SpanOpen string string "SpanOpenInfo option"
  | SpanClose string
  | Attributes "Attribute list option"
  | Log string jsval
  | Exception string string "string option"
  | Return "ReturnInfo option"
  | Outcome string number number
  | DiagnosticChannel string jsval
  | OtherEvent

record TailEvent =
  spanContext :: SpanContext
  ev_timestamp :: Date
  event :: Event

section \<open>The wire format\<close>

datatype AnyValue =
    StringValue string
  | IntValue string
  | DoubleValue number
  | BoolValue bool
  | ArrayValue "AnyValue list"

type_synonym KeyValue = "string \<times> AnyValue"

record OtlpEvent =
  timeUnixNano :: string
  event_name :: string
  event_attributes :: "KeyValue list"

record OtlpSpan =
  otlp_traceId :: string
  otlp_spanId :: string
  otlp_parentSpanId :: "string option"
  name :: string
  kind :: SpanKind
  startTimeUnixNano :: string
  endTimeUnixNano :: "string option"
  attributes :: "KeyValue list"
  events :: "OtlpEvent list"
  otlp_status :: "SpanStatus option"

text \<open>
  The envelope has one resource group with one scope; its two one-element arrays
  are flattened into one record.
\<close>

record OtelTrace =
  resource_attributes :: "KeyValue list"
  scope_name :: string
  scope_version :: string
  otlp_spans :: "OtlpSpan list"

fun convertAttributeValue :: "runtime \<Rightarrow> jsval \<Rightarrow> AnyValue" where
  "convertAttributeValue rt (JStr s) = StringValue s"
| "convertAttributeValue rt (JNum n) =
     (if Number_isInteger n then IntValue (Number_toString rt n) else DoubleValue n)"
| "convertAttributeValue rt (JBool b) = BoolValue b"
| "convertAttributeValue rt (JArr vs) = ArrayValue (map (convertAttributeValue rt) vs)"
| "convertAttributeValue rt v = StringValue (js_String rt v)"

text \<open>The function that \<open>convertToOtelFormat\<close> maps over the spans.\<close>

definition convertSpan :: "runtime \<Rightarrow> OtelSpan \<Rightarrow> OtlpSpan" where
  "convertSpan rt sp =
     \<lparr> otlp_traceId = padHex (traceId sp) 32,
       otlp_spanId = padHex (spanId sp) 16,
       otlp_parentSpanId =
         (if truthy_string (parentSpanId sp)
          then map_option (\<lambda>p. padHex p 16) (parentSpanId sp) else None),
       name = operationName sp,
       kind = SERVER,
       startTimeUnixNano = Number_toString rt (startTime sp),
       endTimeUnixNano = map_option (Number_toString rt) (endTime sp),
       attributes = map (\<lambda>(key, v). (key, convertAttributeValue rt v)) (tags sp),
       events =
         map (\<lambda>entry. \<lparr> timeUnixNano = Number_toString rt (timestamp entry),
                        event_name = ''log'',
                        event_attributes =
                          map (\<lambda>(key, v). (key, convertAttributeValue rt v)) (log_fields entry) \<rparr>)
             (logs sp),
       otlp_status = status sp \<rparr>"

definition convertToOtelFormat :: "runtime \<Rightarrow> OtelSpan list \<Rightarrow> OtelTrace" where
  "convertToOtelFormat rt spans =
     \<lparr> resource_attributes =
         [(''service.name'', StringValue ''cloudflare-worker''),
          (''service.version'', StringValue ''1.0.0'')],
       scope_name = ''cloudflare-worker-tracer'',
       scope_version = ''1.0.0'',
       otlp_spans = map (convertSpan rt) spans \<rparr>"

section \<open>The converter\<close>

text \<open>
  The embedding follows the context-based revision of the converter, in which the
  span context of an event names the span the event belongs to. The span table is
  a \<open>Map\<close>: an association list in insertion order, where \<open>set\<close> on a key that
  is there replaces the value in place (\<open>AList.update\<close>) and \<open>get\<close> is
  \<open>map_of\<close>. What the converter does to the outside is kept in two logs: the
  requests handed to \<open>fetch\<close>, each with the payload that \<open>JSON.stringify\<close>
  serialises as its body, and the lines written with \<open>console.error\<close>.
\<close>

record Request =
  req_url :: string
  req_method :: string
  req_headers :: "(string \<times> string) list"
  req_body :: OtelTrace

record CloudflareToOtelConverter =
  spans :: "(string \<times> OtelSpan) list"
  otelEndpoint :: string
  requests :: "Request list"
  console :: "(string \<times> error) list"

definition new_converter :: "string option \<Rightarrow> CloudflareToOtelConverter" where
  "new_converter endpoint =
     \<lparr> spans = [],
       otelEndpoint = (case endpoint of None \<Rightarrow> ''http://localhost:4318/v1/traces'' | Some u \<Rightarrow> u),
       requests = [],
       console = [] \<rparr>"

fun getOperationName :: "OnsetInfo \<Rightarrow> string" where
  "getOperationName (FetchEventInfo m u cf) = m @ '' '' @ u"
| "getOperationName (ScheduledEventInfo t c) = ''scheduled:'' @ c"
| "getOperationName (QueueEventInfo q b) = ''queue:'' @ q"
| "getOperationName (EmailEventInfo f) = ''email:'' @ f"
| "getOperationName (JsRpcEventInfo m) = ''rpc:'' @ m"
| "getOperationName AlarmEventInfo = ''alarm''"
| "getOperationName CustomEventInfo = ''custom''"
| "getOperationName TraceEventInfo = ''trace''"
| "getOperationName (HibernatableWebSocketEventInfo t) = ''websocket:'' @ t"
| "getOperationName OtherEventInfo = ''unknown''"

text \<open>The loop \<^verbatim>\<open>for (const attr of attrs) tags[attr.name] = attr.value\<close>.\<close>

definition setAttributes :: "Attribute list \<Rightarrow> (string \<times> jsval) list \<Rightarrow> (string \<times> jsval) list" where
  "setAttributes attrs tgs = fold (\<lambda>(n, v). AList.update n v) attrs tgs"

text \<open>\<^verbatim>\<open>if (x) tags[key] = x\<close> for an optional string \<open>x\<close>.\<close>

definition setIfTruthy :: "string \<Rightarrow> string option \<Rightarrow> (string \<times> jsval) list \<Rightarrow> (string \<times> jsval) list" where
  "setIfTruthy key x tgs =
     (case x of None \<Rightarrow> tgs | Some s \<Rightarrow> if s \<noteq> [] then AList.update key (JStr s) tgs else tgs)"

fun infoTags :: "runtime \<Rightarrow> OnsetInfo \<Rightarrow> (string \<times> jsval) list \<Rightarrow> error + (string \<times> jsval) list" where
  "infoTags rt (FetchEventInfo m u cf) tgs =
     (let t1 = AList.update ''http.url'' (JStr u) (AList.update ''http.method'' (JStr m) tgs)
      in if truthy cf
         then (case JSON_stringify rt cf of
                 Inl e \<Rightarrow> Inl e
               | Inr json \<Rightarrow> Inr (AList.update ''cf.properties'' json t1))
         else Inr t1)"
| "infoTags rt (ScheduledEventInfo t c) tgs =
     (case toISOString rt t of
        Inl e \<Rightarrow> Inl e
      | Inr isoStr \<Rightarrow>
          Inr (AList.update ''scheduled.time'' (JStr isoStr) (AList.update ''cron.expression'' (JStr c) tgs)))"
| "infoTags rt (QueueEventInfo q b) tgs =
     Inr (AList.update ''queue.batch_size'' (JNum b) (AList.update ''queue.name'' (JStr q) tgs))"
| "infoTags rt other tgs = Inr tgs"

definition extractTags :: "runtime \<Rightarrow> Onset \<Rightarrow> error + (string \<times> jsval) list" where
  "extractTags rt onset =
     (let t0 = [(''service.name'', JStr (or_default (scriptName onset) ''cloudflare-worker'')),
                (''service.version'',
                   JStr (or_default (case scriptVersion onset of None \<Rightarrow> None | Some v \<Rightarrow> version_id v)
                           ''unknown'')),
                (''execution.model'', JStr (executionModel onset))];
          t1 = setIfTruthy ''dispatch.namespace'' (dispatchNamespace onset) t0;
          t2 = setIfTruthy ''entrypoint'' (entrypoint onset) t1;
          t3 = (case scriptTags onset of
                  None \<Rightarrow> t2
                | Some ts \<Rightarrow> AList.update ''script.tags'' (JStr (join '','' ts)) t2)
      in case infoTags rt (info onset) t3 of
           Inl e \<Rightarrow> Inl e
         | Inr t4 \<Rightarrow>
             Inr (case onset_attributes onset of None \<Rightarrow> t4 | Some attrs \<Rightarrow> setAttributes attrs t4))"

fun extractSpanInfo :: "SpanOpenInfo option \<Rightarrow> (string \<times> jsval) list" where
  "extractSpanInfo None = []"
| "extractSpanInfo (Some (SpanFetchInfo m u)) = [(''http.method'', JStr m), (''http.url'', JStr u)]"
| "extractSpanInfo (Some (SpanAttributes None)) = []"
| "extractSpanInfo (Some (SpanAttributes (Some attrs))) = setAttributes attrs []"
| "extractSpanInfo (Some SpanOtherInfo) = []"

definition handleOnset ::
  "runtime \<Rightarrow> CloudflareToOtelConverter \<Rightarrow> TailEvent \<Rightarrow> Onset \<Rightarrow> error + CloudflareToOtelConverter" where
  "handleOnset rt st ev onset =
     (case extractTags rt onset of
        Inl e \<Rightarrow> Inl e
      | Inr tgs \<Rightarrow>
          (let sp = \<lparr> traceId = ctx_traceId (spanContext ev),
                      spanId = onset_spanId onset,
                      parentSpanId = or_undefined (ctx_spanId (spanContext ev)),
                      operationName = getOperationName (info onset),
                      startTime = nanos (ev_timestamp ev),
                      endTime = None,
                      tags = tgs,
                      logs = [],
                      status = None \<rparr>
           in Inr (st\<lparr>spans := AList.update (spanId sp) sp (spans st)\<rparr>)))"

definition handleSpanOpen ::
  "CloudflareToOtelConverter \<Rightarrow> TailEvent \<Rightarrow> string \<Rightarrow> string \<Rightarrow> SpanOpenInfo option \<Rightarrow> CloudflareToOtelConverter" where
  "handleSpanOpen st ev nm sid nfo =
     (let sp = \<lparr> traceId = ctx_traceId (spanContext ev),
                 spanId = sid,
                 parentSpanId = ctx_spanId (spanContext ev),
                 operationName = nm,
                 startTime = nanos (ev_timestamp ev),
                 endTime = None,
                 tags = extractSpanInfo nfo,
                 logs = [],
                 status = None \<rparr>
      in st\<lparr>spans := AList.update (spanId sp) sp (spans st)\<rparr>)"

text \<open>
  \<^verbatim>\<open>this.spans.get(spanContext.spanId!)\<close>: a context without a span id finds
  nothing. The result keeps the key, under which the handlers write the span back.
\<close>

definition getSpan :: "CloudflareToOtelConverter \<Rightarrow> string option \<Rightarrow> (string \<times> OtelSpan) option" where
  "getSpan st k =
     (case k of
        None \<Rightarrow> None
      | Some key \<Rightarrow> (case map_of (spans st) key of None \<Rightarrow> None | Some sp \<Rightarrow> Some (key, sp)))"

definition handleAttributes ::
  "CloudflareToOtelConverter \<Rightarrow> TailEvent \<Rightarrow> Attribute list option \<Rightarrow> CloudflareToOtelConverter" where
  "handleAttributes st ev nfo =
     (case getSpan st (ctx_spanId (spanContext ev)) of
        None \<Rightarrow> st
      | Some (key, sp) \<Rightarrow>
          (case nfo of
             None \<Rightarrow> st
           | Some attrs \<Rightarrow>
               st\<lparr>spans := AList.update key (sp\<lparr>tags := setAttributes attrs (tags sp)\<rparr>) (spans st)\<rparr>))"

definition handleLog ::
  "runtime \<Rightarrow> CloudflareToOtelConverter \<Rightarrow> TailEvent \<Rightarrow> string \<Rightarrow> jsval \<Rightarrow> CloudflareToOtelConverter" where
  "handleLog rt st ev lvl msg =
     (case getSpan st (ctx_spanId (spanContext ev)) of
        None \<Rightarrow> st
      | Some (key, sp) \<Rightarrow>
          (let entry = \<lparr> timestamp = nanos (ev_timestamp ev),
                          log_fields =
                            [(''level'', JStr lvl),
                             (''message'',
                                (case msg of JArr vs \<Rightarrow> JStr (Array_join rt '' '' vs) | _ \<Rightarrow> msg))] \<rparr>
           in st\<lparr>spans := AList.update key (sp\<lparr>logs := logs sp @ [entry]\<rparr>) (spans st)\<rparr>))"

definition statusOf :: "string \<Rightarrow> SpanStatus" where
  "statusOf outcome = \<lparr> code = (if outcome = ''ok'' then OK else ERROR), message = Some outcome \<rparr>"

definition handleSpanClose ::
  "CloudflareToOtelConverter \<Rightarrow> TailEvent \<Rightarrow> string \<Rightarrow> CloudflareToOtelConverter" where
  "handleSpanClose st ev outcome =
     (case getSpan st (ctx_spanId (spanContext ev)) of
        None \<Rightarrow> st
      | Some (key, sp) \<Rightarrow>
          st\<lparr>spans :=
               AList.update key
                 (sp\<lparr>endTime := Some (nanos (ev_timestamp ev)), status := Some (statusOf outcome)\<rparr>)
                 (spans st)\<rparr>)"

definition handleException ::
  "CloudflareToOtelConverter \<Rightarrow> TailEvent \<Rightarrow> string \<Rightarrow> string \<Rightarrow> string option \<Rightarrow> CloudflareToOtelConverter" where
  "handleException st ev nm msg stack =
     (case getSpan st (ctx_spanId (spanContext ev)) of
        None \<Rightarrow> st
      | Some (key, sp) \<Rightarrow>
          (let entry = \<lparr> timestamp = nanos (ev_timestamp ev),
                          log_fields =
                            [(''level'', JStr ''error''),
                             (''exception.type'', JStr nm),
                             (''exception.message'', JStr msg),
                             (''exception.stacktrace'', JStr (or_default stack []))] \<rparr>
           in st\<lparr>spans :=
                   AList.update key
                     (sp\<lparr>logs := logs sp @ [entry],
                         status := Some \<lparr> code = ERROR, message = Some msg \<rparr>\<rparr>)
                     (spans st)\<rparr>))"

definition handleReturn ::
  "CloudflareToOtelConverter \<Rightarrow> TailEvent \<Rightarrow> ReturnInfo option \<Rightarrow> CloudflareToOtelConverter" where
  "handleReturn st ev nfo =
     (case getSpan st (ctx_spanId (spanContext ev)) of
        None \<Rightarrow> st
      | Some (key, sp) \<Rightarrow>
          (case nfo of
             Some (FetchResponseInfo statusCode) \<Rightarrow>
               st\<lparr>spans :=
                    AList.update key
                      (sp\<lparr>tags := AList.update ''http.response.status_code'' (JNum statusCode) (tags sp)\<rparr>)
                      (spans st)\<rparr>
           | _ \<Rightarrow> st))"

definition handleDiagnosticChannel ::
  "runtime \<Rightarrow> CloudflareToOtelConverter \<Rightarrow> TailEvent \<Rightarrow> string \<Rightarrow> jsval
     \<Rightarrow> error + CloudflareToOtelConverter" where
  "handleDiagnosticChannel rt st ev channel msg =
     (case getSpan st (ctx_spanId (spanContext ev)) of
        None \<Rightarrow> Inr st
      | Some (key, sp) \<Rightarrow>
          (case (case msg of JStr s \<Rightarrow> Inr (JStr s) | _ \<Rightarrow> JSON_stringify rt msg) of
             Inl e \<Rightarrow> Inl e
           | Inr text \<Rightarrow>
               (let entry = \<lparr> timestamp = nanos (ev_timestamp ev),
                               log_fields =
                                 [(''level'', JStr ''debug''),
                                  (''diagnostic.channel'', JStr channel),
                                  (''diagnostic.message'', text)] \<rparr>
                in Inr (st\<lparr>spans := AList.update key (sp\<lparr>logs := logs sp @ [entry]\<rparr>) (spans st)\<rparr>))))"

text \<open>
  \<open>sendToOtel\<close>: the payload is built, \<open>fetch\<close> is called, and a rejection is
  caught and written to the console. The parameter \<open>net\<close> is what the call to
  \<open>fetch\<close> comes to: \<open>Inl\<close> the error it rejects with, \<open>Inr\<close> the status of
  the response it resolves to.
\<close>

definition sendToOtel ::
  "runtime \<Rightarrow> error + nat \<Rightarrow> CloudflareToOtelConverter \<Rightarrow> OtelSpan list \<Rightarrow> error + CloudflareToOtelConverter" where
  "sendToOtel rt net st sps =
     (let otelTrace = convertToOtelFormat rt sps;
          st1 = st\<lparr>requests := requests st @
                   [\<lparr> req_url = otelEndpoint st,
                      req_method = ''POST'',
                      req_headers = [(''Content-Type'', ''application/json'')],
                      req_body = otelTrace \<rparr>]\<rparr>
      in case net of
           Inr response \<Rightarrow> Inr st1
         | Inl err \<Rightarrow>
             Inr (st1\<lparr>console := console st1 @ [(''Failed to export traces to OTEL endpoint:'', err)]\<rparr>))"

text \<open>
  \<open>exportSpans\<close>, run until its promise settles: nothing happens on an empty
  table; otherwise all spans are sent and the table is cleared.
\<close>

definition exportSpans ::
  "runtime \<Rightarrow> error + nat \<Rightarrow> CloudflareToOtelConverter \<Rightarrow> error + CloudflareToOtelConverter" where
  "exportSpans rt net st =
     (let allSpans = map snd (spans st)
      in if length allSpans = 0 then Inr st
         else (case sendToOtel rt net st allSpans of
                 Inl e \<Rightarrow> Inl e
               | Inr st1 \<Rightarrow> Inr (st1\<lparr>spans := []\<rparr>)))"

text \<open>
  \<open>handleOutcome\<close> starts the export and does not await it; the embedding takes
  the export to settle before the next event is handled, as the outcome is the
  last event of an invocation.
\<close>

definition handleOutcome ::
  "runtime \<Rightarrow> error + nat \<Rightarrow> CloudflareToOtelConverter \<Rightarrow> TailEvent \<Rightarrow> string \<Rightarrow> number \<Rightarrow> number
     \<Rightarrow> error + CloudflareToOtelConverter" where
  "handleOutcome rt net st ev outcome cpuTime wallTime =
     (let rootSpan =
            (if truthy_string (ctx_spanId (spanContext ev))
             then getSpan st (ctx_spanId (spanContext ev))
             else find (\<lambda>(key, sp). \<not> truthy_string (parentSpanId sp)) (spans st));
          st1 =
            (case rootSpan of
               None \<Rightarrow> st
             | Some (key, sp) \<Rightarrow>
                 st\<lparr>spans :=
                      AList.update key
                        (sp\<lparr>endTime := Some (nanos (ev_timestamp ev)),
                            status := Some (statusOf outcome),
                            tags := AList.update ''wall.time.ms'' (JNum wallTime)
                                      (AList.update ''cpu.time.ms'' (JNum cpuTime) (tags sp))\<rparr>)
                        (spans st)\<rparr>)
      in exportSpans rt net st1)"

definition handleEvent ::
  "runtime \<Rightarrow> error + nat \<Rightarrow> CloudflareToOtelConverter \<Rightarrow> TailEvent \<Rightarrow> error + CloudflareToOtelConverter" where
  "handleEvent rt net st ev =
     (case event ev of
        OnsetEvent onset \<Rightarrow> handleOnset rt st ev onset
      | SpanOpen nm sid nfo \<Rightarrow> Inr (handleSpanOpen st ev nm sid nfo)
      | Attributes nfo \<Rightarrow> Inr (handleAttributes st ev nfo)
      | Log lvl msg \<Rightarrow> Inr (handleLog rt st ev lvl msg)
      | SpanClose outcome \<Rightarrow> Inr (handleSpanClose st ev outcome)
      | Outcome outcome cpuTime wallTime \<Rightarrow> handleOutcome rt net st ev outcome cpuTime wallTime
      | Exception nm msg stack \<Rightarrow> Inr (handleException st ev nm msg stack)
      | Return nfo \<Rightarrow> Inr (handleReturn st ev nfo)
      | DiagnosticChannel channel msg \<Rightarrow> handleDiagnosticChannel rt st ev channel msg
      | OtherEvent \<Rightarrow> Inr st)"

text \<open>The events of an invocation, handled one after the other.\<close>

fun handleEvents ::
  "runtime \<Rightarrow> error + nat \<Rightarrow> CloudflareToOtelConverter \<Rightarrow> TailEvent list \<Rightarrow> error + CloudflareToOtelConverter" where
  "handleEvents rt net st [] = Inr st"
| "handleEvents rt net st (ev # evs) =
     (case handleEvent rt net st ev of
        Inl e \<Rightarrow> Inl e
      | Inr st1 \<Rightarrow> handleEvents rt net st1 evs)"


section \<open>Scenarios and state predicates\<close>

text \<open>
  A runtime for running scenarios that do not reach one of the three platform
  renderings.
\<close>

definition rt0 :: runtime where
  "rt0 = \<lparr> numberText = (\<lambda>r. ''?''), jsonText = (\<lambda>v. ''?''), isoText = (\<lambda>ms. ''?'') \<rparr>"

definition fetchOnset :: Onset where
  "fetchOnset =
     \<lparr> onset_spanId = ''1'', onset_attributes = Some [], dispatchNamespace = None,
       entrypoint = None, executionModel = ''stateless'', scriptName = Some ''worker'',
       scriptTags = None, scriptVersion = None,
       info = FetchEventInfo ''GET'' ''http://localhost:8787/'' JUndefined \<rparr>"

definition tailEvent :: "string option \<Rightarrow> int \<Rightarrow> Event \<Rightarrow> TailEvent" where
  "tailEvent current ms e =
     \<lparr> spanContext = \<lparr> ctx_traceId = ''abc'', ctx_spanId = current \<rparr>,
       ev_timestamp = Date ms,
       event = e \<rparr>"


text \<open>
  The events that annotate a span that is already there: attributes, log,
  exception, return and diagnosticChannel.
\<close>

fun annotates :: "Event \<Rightarrow> bool" where
  "annotates (Attributes nfo) = True"
| "annotates (Log lvl msg) = True"
| "annotates (Exception nm msg stack) = True"
| "annotates (Return nfo) = True"
| "annotates (DiagnosticChannel channel msg) = True"
| "annotates e = False"

text \<open>
  The table of a \<open>Map\<close> has every key once, and the converter files every span
  under its own \<open>spanId\<close>.
\<close>

definition table_ok :: "CloudflareToOtelConverter \<Rightarrow> bool" where
  "table_ok st = (distinct (map fst (spans st)) \<and> list_all (\<lambda>(key, sp). spanId sp = key) (spans st))"



text \<open>A table with one open root span whose status is already OK.\<close>

definition exampleSpan :: OtelSpan where
  "exampleSpan =
     \<lparr> traceId = ''abc'', spanId = ''1'', parentSpanId = None, operationName = ''alarm'',
       startTime = Finite 1000000, endTime = None, tags = [(''service.name'', JStr ''worker'')],
       logs = [], status = Some \<lparr> code = OK, message = Some ''ok'' \<rparr> \<rparr>"

definition exampleConverter :: CloudflareToOtelConverter where
  "exampleConverter = (new_converter None)\<lparr>spans := [(''1'', exampleSpan)]\<rparr>"

text \<open>A converter state with its console log left out.\<close>

definition withoutConsole :: "error + CloudflareToOtelConverter \<Rightarrow> error + CloudflareToOtelConverter" where
  "withoutConsole r = (case r of Inl e \<Rightarrow> Inl e | Inr st \<Rightarrow> Inr (st\<lparr>console := []\<rparr>))"


text \<open>The span table and the spans sent, read off the result of a run.\<close>

definition tableOf :: "error + CloudflareToOtelConverter \<Rightarrow> (string \<times> OtelSpan) list" where
  "tableOf r = (case r of Inl e \<Rightarrow> [] | Inr st \<Rightarrow> spans st)"

definition sentSpans :: "error + CloudflareToOtelConverter \<Rightarrow> OtlpSpan list" where
  "sentSpans r = (case r of Inl e \<Rightarrow> [] | Inr st \<Rightarrow> concat (map (\<lambda>req. otlp_spans (req_body req)) (requests st)))"


text \<open>The number a text of decimal digits stands for.\<close>

definition decimal_value :: "string \<Rightarrow> nat" where
  "decimal_value s = foldl (\<lambda>acc c. 10 * acc + (of_char c - 48)) 0 s"


section \<open>The stack-based revision\<close>

text \<open>
  The source file also keeps an earlier revision of the converter, which tracks
  the open spans on a stack of its own and remembers the id of the root span. Its
  handlers for onset, spanOpen, spanClose and outcome and its exporter are
  embedded here under the suffix \<open>_stack\<close>, to compare the two revisions on
  scenario A. This revision never sets the \<open>endTime\<close> of the root span, sends
  only spans that have a truthy \<open>endTime\<close>, and removes the spans it sent only
  after a send that succeeded.
\<close>

record StackConverter =
  spans_stack :: "(string \<times> OtelSpan) list"
  otelEndpoint_stack :: string
  rootSpanId :: "string option"
  activeSpanStack :: "string list"
  requests_stack :: "Request list"
  console_stack :: "(string \<times> error) list"

definition new_converter_stack :: "string option \<Rightarrow> StackConverter" where
  "new_converter_stack endpoint =
     \<lparr> spans_stack = [],
       otelEndpoint_stack = (case endpoint of None \<Rightarrow> ''http://localhost:4318/v1/traces'' | Some u \<Rightarrow> u),
       rootSpanId = None,
       activeSpanStack = [],
       requests_stack = [],
       console_stack = [] \<rparr>"

text \<open>The top of the stack is its last element; an empty stack has none.\<close>

definition stackTop :: "string list \<Rightarrow> string option" where
  "stackTop stack = (if stack = [] then None else Some (last stack))"

definition handleOnset_stack ::
  "runtime \<Rightarrow> StackConverter \<Rightarrow> TailEvent \<Rightarrow> Onset \<Rightarrow> error + StackConverter" where
  "handleOnset_stack rt st ev onset =
     (case extractTags rt onset of
        Inl e \<Rightarrow> Inl e
      | Inr tgs \<Rightarrow>
          (let sp = \<lparr> traceId = ctx_traceId (spanContext ev),
                      spanId = onset_spanId onset,
                      parentSpanId = or_undefined (ctx_spanId (spanContext ev)),
                      operationName = getOperationName (info onset),
                      startTime = nanos (ev_timestamp ev),
                      endTime = None,
                      tags = tgs,
                      logs = [],
                      status = None \<rparr>
           in Inr (st\<lparr>spans_stack := AList.update (spanId sp) sp (spans_stack st),
                      rootSpanId := Some (spanId sp),
                      activeSpanStack := activeSpanStack st @ [spanId sp]\<rparr>)))"

definition handleSpanOpen_stack ::
  "StackConverter \<Rightarrow> TailEvent \<Rightarrow> string \<Rightarrow> string \<Rightarrow> SpanOpenInfo option \<Rightarrow> StackConverter" where
  "handleSpanOpen_stack st ev nm sid nfo =
     (let sp = \<lparr> traceId = ctx_traceId (spanContext ev),
                 spanId = sid,
                 parentSpanId =
                   (if truthy_string (stackTop (activeSpanStack st))
                    then stackTop (activeSpanStack st) else ctx_spanId (spanContext ev)),
                 operationName = nm,
                 startTime = nanos (ev_timestamp ev),
                 endTime = None,
                 tags = extractSpanInfo nfo,
                 logs = [],
                 status = None \<rparr>
      in st\<lparr>spans_stack := AList.update (spanId sp) sp (spans_stack st),
            activeSpanStack := activeSpanStack st @ [spanId sp]\<rparr>)"

definition handleSpanClose_stack :: "StackConverter \<Rightarrow> TailEvent \<Rightarrow> string \<Rightarrow> StackConverter" where
  "handleSpanClose_stack st ev outcome =
     (let popped = stackTop (activeSpanStack st);
          st1 = st\<lparr>activeSpanStack := butlast (activeSpanStack st)\<rparr>
      in if \<not> truthy_string popped then st1
         else (case popped of
                 None \<Rightarrow> st1
               | Some key \<Rightarrow>
                   (case map_of (spans_stack st1) key of
                      None \<Rightarrow> st1
                    | Some sp \<Rightarrow>
                        st1\<lparr>spans_stack :=
                              AList.update key
                                (sp\<lparr>endTime := Some (nanos (ev_timestamp ev)),
                                    status := Some (statusOf outcome)\<rparr>)
                                (spans_stack st1)\<rparr>)))"

text \<open>A number is truthy unless it is zero or \<open>NaN\<close>.\<close>

definition exportSpans_stack :: "runtime \<Rightarrow> error + nat \<Rightarrow> StackConverter \<Rightarrow> StackConverter" where
  "exportSpans_stack rt net st =
     (let completedSpans =
            filter (\<lambda>sp. case endTime sp of None \<Rightarrow> False | Some n \<Rightarrow> truthy (JNum n))
              (map snd (spans_stack st))
      in if length completedSpans = 0 then st
         else (let otelTrace = convertToOtelFormat rt completedSpans;
                   st1 = st\<lparr>requests_stack := requests_stack st @
                           [\<lparr> req_url = otelEndpoint_stack st,
                              req_method = ''POST'',
                              req_headers = [(''Content-Type'', ''application/json'')],
                              req_body = otelTrace \<rparr>]\<rparr>
               in case net of
                    Inr response \<Rightarrow>
                      st1\<lparr>spans_stack :=
                            fold (\<lambda>sp table. AList.delete (spanId sp) table) completedSpans
                              (spans_stack st1)\<rparr>
                  | Inl err \<Rightarrow>
                      st1\<lparr>console_stack := console_stack st1 @
                            [(''Failed to export traces to OTEL endpoint:'', err)]\<rparr>))"

definition handleOutcome_stack ::
  "runtime \<Rightarrow> error + nat \<Rightarrow> StackConverter \<Rightarrow> TailEvent \<Rightarrow> string \<Rightarrow> number \<Rightarrow> number \<Rightarrow> StackConverter" where
  "handleOutcome_stack rt net st ev outcome cpuTime wallTime =
     (let rootSpan =
            (if truthy_string (rootSpanId st)
             then (case rootSpanId st of
                     None \<Rightarrow> None
                   | Some key \<Rightarrow>
                       (case map_of (spans_stack st) key of None \<Rightarrow> None | Some sp \<Rightarrow> Some (key, sp)))
             else None);
          st1 =
            (case rootSpan of
               None \<Rightarrow> st
             | Some (key, sp) \<Rightarrow>
                 st\<lparr>spans_stack :=
                      AList.update key
                        (sp\<lparr>status := Some (statusOf outcome),
                            tags := AList.update ''wall.time.ms'' (JNum wallTime)
                                      (AList.update ''cpu.time.ms'' (JNum cpuTime) (tags sp))\<rparr>)
                        (spans_stack st)\<rparr>)
      in exportSpans_stack rt net st1)"

text \<open>Scenario A with fixed onset metadata and timestamps, on the stack-based revision.\<close>

definition scenarioA_stack :: "error + nat \<Rightarrow> error + StackConverter" where
  "scenarioA_stack net =
     (case handleOnset_stack rt0 (new_converter_stack None) (tailEvent None 1 (OnsetEvent fetchOnset)) fetchOnset of
        Inl e \<Rightarrow> Inl e
      | Inr st1 \<Rightarrow>
          (let st2 = handleSpanOpen_stack st1 (tailEvent (Some ''1'') 2 (SpanOpen ''child'' ''2'' None))
                       ''child'' ''2'' None;
               st3 = handleSpanClose_stack st2 (tailEvent (Some ''2'') 3 (SpanClose ''ok'')) ''ok''
           in Inr (handleOutcome_stack rt0 net st3
                     (tailEvent None 4 (Outcome ''ok'' (Finite 5) (Finite 10)))
                     ''ok'' (Finite 5) (Finite 10))))"


definition sentSpans_stack :: "error + StackConverter \<Rightarrow> OtlpSpan list" where
  "sentSpans_stack r =
     (case r of Inl e \<Rightarrow> [] | Inr st \<Rightarrow> concat (map (\<lambda>req. otlp_spans (req_body req)) (requests_stack st)))"


section \<open>Timestamps\<close>

lemma nanos_Date [simp]: "nanos (Date ms) = Finite (of_int ms * 1000000)"
  by (simp add: nanos_def)

lemma nanos_InvalidDate [simp]: "nanos InvalidDate = NaN"
  by (simp add: nanos_def)

section \<open>Hex padding\<close>

lemma toLowerCase_char_idem: "toLowerCase_char (toLowerCase_char c) = toLowerCase_char c"
proof -
  have "\<not> (65 \<le> ((of_char c :: nat) + 32) mod 256 \<and> ((of_char c :: nat) + 32) mod 256 \<le> 90)"
    if "65 \<le> (of_char c :: nat)" "(of_char c :: nat) \<le> 90"
    using that by auto
  then show ?thesis
    by (auto simp add: toLowerCase_char_def Let_def)
qed

lemma toLowerCase_idem: "toLowerCase (toLowerCase s) = toLowerCase s"
  by (simp add: toLowerCase_def toLowerCase_char_idem)

lemma length_padHex: "length (padHex s n) = max (length s) n"
  by (simp add: padHex_def padStart_def toLowerCase_def)

text \<open>
  C9: padding is idempotent. Padding a second time to the same width gives the
  string that padding once gives, for every string and every width; in particular
  an id that already has its 32 or 16 characters is only lower-cased.
\<close>

theorem padHex_idempotent: "padHex (padHex s n) n = padHex s n"
proof -
  have "padStart (padHex s n) n (CHR ''0'') = padHex s n"
    by (simp add: padStart_def length_padHex)
  then have "padHex (padHex s n) n = toLowerCase (padHex s n)"
    by (simp add: padHex_def)
  then show ?thesis
    by (simp add: padHex_def toLowerCase_idem)
qed


section \<open>Evaluation\<close>

lemma digit_values:
  "digit 0 = CHR ''0''" "digit 1 = CHR ''1''" "digit 2 = CHR ''2''" "digit 3 = CHR ''3''"
  "digit 4 = CHR ''4''" "digit 5 = CHR ''5''" "digit 6 = CHR ''6''" "digit 7 = CHR ''7''"
  "digit 8 = CHR ''8''" "digit 9 = CHR ''9''"
  by code_simp+

lemmas run_defs =
  handleEvent_def handleOnset_def handleSpanOpen_def handleSpanClose_def handleOutcome_def
  handleAttributes_def handleLog_def handleException_def handleReturn_def
  handleDiagnosticChannel_def exportSpans_def sendToOtel_def getSpan_def statusOf_def
  extractTags_def setIfTruthy_def setAttributes_def or_default_def or_undefined_def
  new_converter_def tailEvent_def fetchOnset_def tableOf_def sentSpans_def Let_def

lemma padHex_values:
  "padHex [] 16 = ''0000000000000000''"
  "padHex ''1'' 16 = ''0000000000000001''"
  "padHex ''2'' 16 = ''0000000000000002''"
  "padHex ''abc'' 32 = ''00000000000000000000000000000abc''"
  by code_simp+

lemmas wire_defs =
  convertToOtelFormat_def convertSpan_def padHex_values int_digits_def nat_digits.simps digit_values



section \<open>The attribute encoder\<close>

lemma decimal_value_snoc:
  "decimal_value (s @ [c]) = 10 * decimal_value s + (of_char c - 48)"
  by (simp add: decimal_value_def)

lemma of_char_digit: "d < 10 \<Longrightarrow> (of_char (digit d) :: nat) = 48 + d"
  by (simp add: digit_def)

lemma decimal_value_nat_digits: "decimal_value (nat_digits n) = n"
proof (induction n rule: nat_digits.induct)
  case (1 n)
  show ?case
  proof (cases "n < 10")
    case True
    then show ?thesis
      by (subst nat_digits.simps) (simp add: decimal_value_def of_char_digit)
  next
    case False
    with 1 have "decimal_value (nat_digits (n div 10)) = n div 10" by simp
    with False show ?thesis
      by (subst nat_digits.simps) (simp add: decimal_value_snoc of_char_digit)
  qed
qed




section \<open>Events on a span\<close>

lemma getSpan_None_iff:
  "getSpan st k = None \<longleftrightarrow> (case k of None \<Rightarrow> True | Some key \<Rightarrow> map_of (spans st) key = None)"
  by (simp add: getSpan_def split: option.splits)

lemma getSpan_Some:
  "map_of (spans st) key = Some sp \<Longrightarrow> getSpan st (Some key) = Some (key, sp)"
  by (simp add: getSpan_def)

text \<open>
  C7: an attributes, log, exception, return or diagnosticChannel event whose
  context names no span of the table (or no span at all) is dropped: handling it
  returns normally, with the converter state exactly as it was.
\<close>

theorem unresolved_target_dropped:
  assumes "annotates (event ev)"
    and "case ctx_spanId (spanContext ev) of None \<Rightarrow> True | Some key \<Rightarrow> map_of (spans st) key = None"
  shows "handleEvent rt net st ev = Inr st"
proof -
  from assms(2) have none: "getSpan st (ctx_spanId (spanContext ev)) = None"
    by (simp add: getSpan_None_iff)
  from assms(1) show ?thesis
    by (cases "event ev")
       (simp_all add: handleEvent_def handleAttributes_def handleLog_def handleException_def
          handleReturn_def handleDiagnosticChannel_def none)
qed

theorem unresolved_target_dropped_witness:
  "annotates (event (tailEvent (Some ''9'') 7 (Log ''info'' (JStr ''late''))))
   \<and> map_of (spans exampleConverter) ''9'' = None
   \<and> handleEvent rt0 (Inr 200) exampleConverter (tailEvent (Some ''9'') 7 (Log ''info'' (JStr ''late'')))
       = Inr exampleConverter"
  using unresolved_target_dropped
    [of "tailEvent (Some ''9'') 7 (Log ''info'' (JStr ''late''))" exampleConverter rt0 "Inr 200"]
  by (simp add: tailEvent_def exampleConverter_def)

text \<open>
  C6: an exception event on a span of the table sets the status of the span to
  ERROR with the message of the exception, whatever the status was, and appends
  one log entry with the level \<open>error\<close>, the name, the message and the stack text
  of the exception, the stack text being empty when the event carries none.
  Nothing else of the state changes.
\<close>

theorem exception_marks_error:
  assumes "event ev = Exception nm msg stack"
    and "ctx_spanId (spanContext ev) = Some key"
    and "map_of (spans st) key = Some sp"
  shows "handleEvent rt net st ev =
    Inr (st\<lparr>spans := AList.update key
      (sp\<lparr>logs := logs sp @
            [\<lparr> timestamp = nanos (ev_timestamp ev),
               log_fields = [(''level'', JStr ''error''),
                             (''exception.type'', JStr nm),
                             (''exception.message'', JStr msg),
                             (''exception.stacktrace'', JStr (case stack of None \<Rightarrow> [] | Some s \<Rightarrow> s))] \<rparr>],
          status := Some \<lparr> code = ERROR, message = Some msg \<rparr>\<rparr>)
      (spans st)\<rparr>)"
proof -
  have "or_default stack [] = (case stack of None \<Rightarrow> [] | Some s \<Rightarrow> s)"
    by (simp add: or_default_def split: option.splits)
  with assms show ?thesis
    by (simp add: handleEvent_def handleException_def getSpan_Some)
qed

theorem exception_marks_error_witness:
  "event (tailEvent (Some ''1'') 7 (Exception ''TypeError'' ''boom'' None)) = Exception ''TypeError'' ''boom'' None
   \<and> ctx_spanId (spanContext (tailEvent (Some ''1'') 7 (Exception ''TypeError'' ''boom'' None))) = Some ''1''
   \<and> map_of (spans exampleConverter) ''1'' = Some exampleSpan
   \<and> map_option code (status exampleSpan) = Some OK
   \<and> handleEvent rt0 (Inr 200) exampleConverter (tailEvent (Some ''1'') 7 (Exception ''TypeError'' ''boom'' None))
       = Inr (exampleConverter\<lparr>spans :=
           [(''1'', exampleSpan\<lparr>logs :=
                [\<lparr> timestamp = Finite 7000000,
                   log_fields = [(''level'', JStr ''error''),
                                 (''exception.type'', JStr ''TypeError''),
                                 (''exception.message'', JStr ''boom''),
                                 (''exception.stacktrace'', JStr [])] \<rparr>],
              status := Some \<lparr> code = ERROR, message = Some ''boom'' \<rparr>\<rparr>)]\<rparr>)"
  using exception_marks_error
    [of "tailEvent (Some ''1'') 7 (Exception ''TypeError'' ''boom'' None)" "''TypeError''" "''boom''" None
        "''1''" exampleConverter exampleSpan rt0 "Inr 200"]
  by (simp add: tailEvent_def exampleConverter_def exampleSpan_def)

section \<open>Onset\<close>

lemma extractTags_spanId [simp]: "extractTags rt (onset\<lparr>onset_spanId := x\<rparr>) = extractTags rt onset"
  by (simp add: extractTags_def Let_def cong: sum.case_cong option.case_cong)

text \<open>
  C4, as the code has it: the root span that an onset event creates has no
  \<open>parentSpanId\<close> when the span context carries no current-span id or an empty
  one, and has that id as its \<open>parentSpanId\<close> when the context carries a
  current-span id that is not empty.
\<close>

theorem onset_parent:
  assumes "event ev = OnsetEvent onset"
    and "handleEvent rt net st ev = Inr st'"
  shows "\<exists>sp. map_of (spans st') (onset_spanId onset) = Some sp
           \<and> spanId sp = onset_spanId onset
           \<and> parentSpanId sp =
               (case ctx_spanId (spanContext ev) of
                  None \<Rightarrow> None
                | Some p \<Rightarrow> if p = [] then None else Some p)"
proof -
  from assms obtain tgs where t: "extractTags rt onset = Inr tgs"
    by (cases "extractTags rt onset") (simp_all add: handleEvent_def handleOnset_def)
  have p: "or_undefined (ctx_spanId (spanContext ev)) =
      (case ctx_spanId (spanContext ev) of None \<Rightarrow> None | Some p \<Rightarrow> if p = [] then None else Some p)"
    by (simp add: or_undefined_def split: option.splits)
  from assms t have "spans st' = AList.update (onset_spanId onset)
      \<lparr> traceId = ctx_traceId (spanContext ev), spanId = onset_spanId onset,
        parentSpanId = or_undefined (ctx_spanId (spanContext ev)),
        operationName = getOperationName (info onset), startTime = nanos (ev_timestamp ev),
        endTime = None, tags = tgs, logs = [], status = None \<rparr> (spans st)"
    by (auto simp add: handleEvent_def handleOnset_def Let_def)
  then show ?thesis
    by (simp add: AList.update_conv' p)
qed

theorem onset_parent_witness:
  "event (tailEvent (Some ''7'') 1 (OnsetEvent fetchOnset)) = OnsetEvent fetchOnset
   \<and> event (tailEvent None 1 (OnsetEvent fetchOnset)) = OnsetEvent fetchOnset
   \<and> (\<exists>st' sp. handleEvent rt0 (Inr 200) (new_converter None) (tailEvent (Some ''7'') 1 (OnsetEvent fetchOnset)) = Inr st'
          \<and> map_of (spans st') ''1'' = Some sp \<and> parentSpanId sp = Some ''7'')
   \<and> (\<exists>st' sp. handleEvent rt0 (Inr 200) (new_converter None) (tailEvent None 1 (OnsetEvent fetchOnset)) = Inr st'
          \<and> map_of (spans st') ''1'' = Some sp \<and> parentSpanId sp = None)"
proof -
  let ?a = "tailEvent (Some ''7'') 1 (OnsetEvent fetchOnset)"
  let ?b = "tailEvent None 1 (OnsetEvent fetchOnset)"
  have ea: "event ?a = OnsetEvent fetchOnset" and eb: "event ?b = OnsetEvent fetchOnset"
    by (simp_all add: tailEvent_def)
  obtain sa where sa: "handleEvent rt0 (Inr 200) (new_converter None) ?a = Inr sa"
    by (simp add: run_defs)
  obtain sb where sb: "handleEvent rt0 (Inr 200) (new_converter None) ?b = Inr sb"
    by (simp add: run_defs)
  from onset_parent [OF ea sa] obtain spa where
    "map_of (spans sa) ''1'' = Some spa" "parentSpanId spa = Some ''7''"
    by (auto simp add: tailEvent_def fetchOnset_def)
  moreover from onset_parent [OF eb sb] obtain spb where
    "map_of (spans sb) ''1'' = Some spb" "parentSpanId spb = None"
    by (auto simp add: tailEvent_def fetchOnset_def)
  ultimately show ?thesis
    using ea eb sa sb by blast
qed

text \<open>
  The claim as stated fails for the empty id: the context carries the empty text
  as its current-span id, and the root span has no \<open>parentSpanId\<close>.
\<close>

theorem onset_parent_counterexample:
  "ctx_spanId (spanContext (tailEvent (Some []) 1 (OnsetEvent fetchOnset))) = Some []
   \<and> map (\<lambda>(key, sp). (key, parentSpanId sp))
         (tableOf (handleEvent rt0 (Inr 200) (new_converter None) (tailEvent (Some []) 1 (OnsetEvent fetchOnset))))
       = [(''1'', None)]"
  by (simp add: run_defs)

section \<open>End times\<close>









section \<open>The exporter\<close>

lemma sendToOtel_Inr:
  "\<exists>st1. sendToOtel rt net st sps = Inr st1 \<and> spans st1 = spans st \<and> otelEndpoint st1 = otelEndpoint st"
  by (cases net) (simp_all add: sendToOtel_def Let_def)

lemma export_spans_empty: "\<exists>st'. exportSpans rt net st = Inr st' \<and> spans st' = []"
proof (cases "spans st = []")
  case True
  then show ?thesis by (simp add: exportSpans_def)
next
  case False
  obtain st1 where "sendToOtel rt net st (map snd (spans st)) = Inr st1"
    using sendToOtel_Inr by blast
  with False show ?thesis by (simp add: exportSpans_def)
qed


lemma getSpan_console [simp]: "getSpan (st\<lparr>console := c\<rparr>) k = getSpan st k"
  by (simp add: getSpan_def split: option.splits)

lemma exportSpans_console:
  assumes "spans a = spans b" "otelEndpoint a = otelEndpoint b" "requests a = requests b"
  shows "withoutConsole (exportSpans rt net a) = withoutConsole (exportSpans rt net b)"
  using assms
  by (cases a, cases b, cases net)
     (simp_all add: exportSpans_def sendToOtel_def withoutConsole_def Let_def)

lemma handleOutcome_found:
  assumes "(if truthy_string (ctx_spanId (spanContext ev))
            then getSpan st (ctx_spanId (spanContext ev))
            else find (\<lambda>(key, sp). \<not> truthy_string (parentSpanId sp)) (spans st)) = Some (key, sp)"
  shows "handleOutcome rt net st ev outcome cpu wall =
    exportSpans rt net
      (st\<lparr>spans := AList.update key
          (sp\<lparr>endTime := Some (nanos (ev_timestamp ev)),
              status := Some (statusOf outcome),
              tags := AList.update ''wall.time.ms'' (JNum wall)
                        (AList.update ''cpu.time.ms'' (JNum cpu) (tags sp))\<rparr>)
          (spans st)\<rparr>)"
  unfolding handleOutcome_def Let_def assms by simp

lemma handleOutcome_not_found:
  assumes "(if truthy_string (ctx_spanId (spanContext ev))
            then getSpan st (ctx_spanId (spanContext ev))
            else find (\<lambda>(key, sp). \<not> truthy_string (parentSpanId sp)) (spans st)) = None"
  shows "handleOutcome rt net st ev outcome cpu wall = exportSpans rt net st"
  unfolding handleOutcome_def Let_def assms by simp

lemma handleOutcome_console:
  "withoutConsole (handleOutcome rt net (st\<lparr>console := c\<rparr>) ev outcome cpu wall) =
   withoutConsole (handleOutcome rt net st ev outcome cpu wall)"
proof -
  let ?root = "\<lambda>s. if truthy_string (ctx_spanId (spanContext ev))
     then getSpan s (ctx_spanId (spanContext ev))
     else find (\<lambda>(key, sp). \<not> truthy_string (parentSpanId sp)) (spans s)"
  have same: "?root (st\<lparr>console := c\<rparr>) = ?root st"
    by (simp cong: if_cong)
  show ?thesis
  proof (cases "?root st")
    case None
    with same have "?root (st\<lparr>console := c\<rparr>) = None" by simp
    from handleOutcome_not_found[OF this] handleOutcome_not_found[OF None]
    have "handleOutcome rt net (st\<lparr>console := c\<rparr>) ev outcome cpu wall = exportSpans rt net (st\<lparr>console := c\<rparr>)"
      and "handleOutcome rt net st ev outcome cpu wall = exportSpans rt net st"
      by simp_all
    then show ?thesis by (simp only:) (rule exportSpans_console, simp_all)
  next
    case (Some a)
    obtain key sp where a: "a = (key, sp)" by (cases a)
    from Some a same have "?root (st\<lparr>console := c\<rparr>) = Some (key, sp)" by simp
    from handleOutcome_found[OF this] handleOutcome_found[OF Some[unfolded a]]
    show ?thesis by (simp only:) (rule exportSpans_console, simp_all)
  qed
qed

lemma handleEvent_console:
  "withoutConsole (handleEvent rt net (st\<lparr>console := c\<rparr>) ev) = withoutConsole (handleEvent rt net st ev)"
proof (cases "event ev")
  case (Outcome outcome cpu wall)
  then show ?thesis by (simp add: handleEvent_def handleOutcome_console)
next
  case (OnsetEvent onset)
  then show ?thesis
    by (simp add: handleEvent_def handleOnset_def withoutConsole_def Let_def split: sum.splits)
qed (simp_all add: handleEvent_def withoutConsole_def handleSpanOpen_def handleAttributes_def
      handleLog_def handleSpanClose_def handleException_def handleReturn_def
      handleDiagnosticChannel_def Let_def
      split: option.splits prod.splits ReturnInfo.splits sum.splits)

lemma withoutConsole_Inr_eq:
  "withoutConsole (Inr a) = withoutConsole (Inr b) \<Longrightarrow> b = a\<lparr>console := console b\<rparr>"
  for a b :: CloudflareToOtelConverter
  by (cases a, cases b) (simp add: withoutConsole_def)

lemma handleEvents_console:
  "withoutConsole (handleEvents rt net (st\<lparr>console := c\<rparr>) evs) = withoutConsole (handleEvents rt net st evs)"
proof (induction evs arbitrary: st c)
  case Nil
  then show ?case by (simp add: withoutConsole_def)
next
  case (Cons ev evs)
  have step: "withoutConsole (handleEvent rt net (st\<lparr>console := c\<rparr>) ev) = withoutConsole (handleEvent rt net st ev)"
    by (rule handleEvent_console)
  show ?case
  proof (cases "handleEvent rt net st ev")
    case (Inl e)
    with step have "handleEvent rt net (st\<lparr>console := c\<rparr>) ev = Inl e"
      by (cases "handleEvent rt net (st\<lparr>console := c\<rparr>) ev") (simp_all add: withoutConsole_def)
    with Inl show ?thesis by simp
  next
    case (Inr a)
    with step obtain b where b: "handleEvent rt net (st\<lparr>console := c\<rparr>) ev = Inr b"
      by (cases "handleEvent rt net (st\<lparr>console := c\<rparr>) ev") (simp_all add: withoutConsole_def)
    with step Inr have "b = a\<lparr>console := console b\<rparr>"
      by (simp add: withoutConsole_Inr_eq)
    then have "handleEvents rt net b evs = handleEvents rt net (a\<lparr>console := console b\<rparr>) evs"
      by simp
    with Cons.IH[where st=a and c="console b"] Inr b show ?thesis by simp
  qed
qed

text \<open>
  C8: when the send fails, \<open>exportSpans\<close> still returns normally; the error is
  on the console; the state is the one a successful send leaves, apart from the
  console; and every later run of events goes the same way from both states.
\<close>

theorem failed_send_is_caught:
  assumes "spans st \<noteq> []"
  shows "\<exists>st'. exportSpans rt (Inl err) st = Inr st'
           \<and> console st' = console st @ [(''Failed to export traces to OTEL endpoint:'', err)]
           \<and> exportSpans rt (Inr response) st = Inr (st'\<lparr>console := console st\<rparr>)
           \<and> (\<forall>net evs. withoutConsole (handleEvents rt net st' evs) =
                  withoutConsole (handleEvents rt net (st'\<lparr>console := console st\<rparr>) evs))"
proof -
  let ?st' = "st\<lparr>requests := requests st @
                   [\<lparr> req_url = otelEndpoint st, req_method = ''POST'',
                      req_headers = [(''Content-Type'', ''application/json'')],
                      req_body = convertToOtelFormat rt (map snd (spans st)) \<rparr>],
               console := console st @ [(''Failed to export traces to OTEL endpoint:'', err)],
               spans := []\<rparr>"
  from assms have 1: "exportSpans rt (Inl err) st = Inr ?st'"
    by (simp add: exportSpans_def sendToOtel_def Let_def)
  from assms have 2: "exportSpans rt (Inr response) st = Inr (?st'\<lparr>console := console st\<rparr>)"
    by (simp add: exportSpans_def sendToOtel_def Let_def)
  have 3: "withoutConsole (handleEvents rt net ?st' evs) =
           withoutConsole (handleEvents rt net (?st'\<lparr>console := console st\<rparr>) evs)" for net evs
    using handleEvents_console[where rt=rt and net=net and st="?st'" and c="console st" and evs=evs] by simp
  have 4: "console ?st' = console st @ [(''Failed to export traces to OTEL endpoint:'', err)]"
    by simp
  from 1 2 3 4 show ?thesis by blast
qed

theorem failed_send_is_caught_witness:
  "spans exampleConverter \<noteq> []
   \<and> (\<exists>st'. exportSpans rt0 (Inl (FetchError ''down'')) exampleConverter = Inr st'
           \<and> console st' = [(''Failed to export traces to OTEL endpoint:'', FetchError ''down'')]
           \<and> spans st' = []
           \<and> exportSpans rt0 (Inr 200) exampleConverter = Inr (st'\<lparr>console := []\<rparr>))"
proof -
  have h: "spans exampleConverter \<noteq> []"
    by (simp add: exampleConverter_def)
  have c: "console exampleConverter = []"
    by (simp add: exampleConverter_def new_converter_def)
  obtain st' where 1: "exportSpans rt0 (Inl (FetchError ''down'')) exampleConverter = Inr st'"
    and 2: "console st' = console exampleConverter @ [(''Failed to export traces to OTEL endpoint:'', FetchError ''down'')]"
    and 3: "exportSpans rt0 (Inr 200) exampleConverter = Inr (st'\<lparr>console := console exampleConverter\<rparr>)"
    using failed_send_is_caught [OF h, of rt0 "FetchError ''down''" 200] by blast
  obtain st2 where 4: "exportSpans rt0 (Inl (FetchError ''down'')) exampleConverter = Inr st2" and 5: "spans st2 = []"
    using export_spans_empty by blast
  from 1 4 5 have "spans st' = []" by simp
  with h 1 2 3 c show ?thesis by simp
qed

section \<open>The span table\<close>

text \<open>
  Every table the converter reaches from a new one has each key once and every
  span under its own id, so writing a span back under its key is the mutation in
  place that the source does on the object it found.
\<close>

lemma list_all_update:
  "list_all P xs \<Longrightarrow> P (key, v) \<Longrightarrow> list_all P (AList.update key v xs)"
  by (induction xs) auto

lemma table_ok_update:
  "table_ok st \<Longrightarrow> spanId sp = key \<Longrightarrow> table_ok (st\<lparr>spans := AList.update key sp (spans st)\<rparr>)"
  by (simp add: table_ok_def AList.distinct_update list_all_update)

lemma table_ok_spanId:
  assumes "table_ok st" and "map_of (spans st) key = Some sp"
  shows "spanId sp = key"
proof -
  from assms(2) have "(key, sp) \<in> set (spans st)" by (rule map_of_SomeD)
  with assms(1) show ?thesis
    by (auto simp add: table_ok_def list_all_iff)
qed

lemma table_ok_mutate:
  assumes "table_ok st" and "getSpan st k = Some (key, sp)" and "spanId sp' = spanId sp"
  shows "table_ok (st\<lparr>spans := AList.update key sp' (spans st)\<rparr>)"
proof -
  from assms(2) have "map_of (spans st) key = Some sp"
    by (auto simp add: getSpan_def split: option.splits)
  with assms(1) have "spanId sp = key" by (rule table_ok_spanId)
  with assms(1,3) show ?thesis by (simp add: table_ok_update)
qed

lemma table_ok_empty: "spans st = [] \<Longrightarrow> table_ok st"
  by (simp add: table_ok_def)

lemma table_ok_new_converter: "table_ok (new_converter endpoint)"
  by (simp add: table_ok_empty new_converter_def)

lemma table_ok_handleEvent:
  assumes "table_ok st" and "handleEvent rt net st ev = Inr st'"
  shows "table_ok st'"
proof (cases "event ev")
  case (OnsetEvent onset)
  with assms show ?thesis
    by (auto simp add: handleEvent_def handleOnset_def Let_def table_ok_update split: sum.splits)
next
  case (SpanOpen nm sid nfo)
  with assms show ?thesis
    by (auto simp add: handleEvent_def handleSpanOpen_def Let_def table_ok_update)
next
  case (Outcome outcome cpu wall)
  with assms(2) have "\<exists>s. exportSpans rt net s = Inr st'"
    by (auto simp add: handleEvent_def handleOutcome_def Let_def)
  then obtain s where s: "exportSpans rt net s = Inr st'" ..
  obtain s' where "exportSpans rt net s = Inr s'" and "spans s' = []"
    using export_spans_empty by blast
  with s have "spans st' = []" by simp
  then show ?thesis by (rule table_ok_empty)
next
  case OtherEvent
  with assms show ?thesis by (simp add: handleEvent_def)
next
  case (SpanClose outcome)
  with assms show ?thesis
    by (auto simp add: handleEvent_def handleSpanClose_def table_ok_mutate split: option.splits)
next
  case (Attributes nfo)
  with assms show ?thesis
    by (auto simp add: handleEvent_def handleAttributes_def table_ok_mutate split: option.splits)
next
  case (Log lvl msg)
  with assms show ?thesis
    by (auto simp add: handleEvent_def handleLog_def Let_def table_ok_mutate split: option.splits)
next
  case (Exception nm msg stack)
  with assms show ?thesis
    by (auto simp add: handleEvent_def handleException_def Let_def table_ok_mutate split: option.splits)
next
  case (Return nfo)
  with assms show ?thesis
    by (auto simp add: handleEvent_def handleReturn_def table_ok_mutate
          split: option.splits ReturnInfo.splits)
next
  case (DiagnosticChannel channel msg)
  with assms show ?thesis
    by (auto simp add: handleEvent_def handleDiagnosticChannel_def Let_def table_ok_mutate
          split: option.splits sum.splits)
qed

lemma table_ok_handleEvents:
  "table_ok st \<Longrightarrow> handleEvents rt net st evs = Inr st' \<Longrightarrow> table_ok st'"
proof (induction evs arbitrary: st)
  case Nil
  then show ?case by simp
next
  case (Cons ev evs)
  then show ?case
    by (cases "handleEvent rt net st ev") (auto dest: table_ok_handleEvent)
qed

section \<open>Outcome\<close>







section \<open>Scenario A\<close>



section \<open>Scenario A on the stack-based revision\<close>

text \<open>
  On the stack-based revision the same run sends the child span only, whether
  the send succeeds or fails: the root span never gets an \<open>endTime\<close> and is
  left out of the batch.
\<close>

lemmas stack_defs =
  scenarioA_stack_def sentSpans_stack_def handleOnset_stack_def handleSpanOpen_stack_def
  handleSpanClose_stack_def handleOutcome_stack_def exportSpans_stack_def
  new_converter_stack_def stackTop_def

lemma scenarioA_stack_sends_child_only:
  "map otlp_spanId (sentSpans_stack (scenarioA_stack (Inr 200))) = [''0000000000000002'']
   \<and> map otlp_spanId (sentSpans_stack (scenarioA_stack (Inl (FetchError ''down'')))) = [''0000000000000002'']"
  by (simp add: stack_defs run_defs wire_defs)

end
